theory Spec2Isabelle
  imports Main
begin

section \<open>The telemetry reporter of packages/util/telemetry/generic/index.ts\<close>

text \<open>
  The module wraps an error-tracking SDK. Everything it does is a call into the SDK or
  into the logger, decided by two static fields of the class (\<open>enabled\<close>, \<open>extraInfo\<close>)
  and by the \<open>lastIndex\<close> of the module's regular expression, which carries the flag
  \<open>g\<close>. The model threads a record of that state through every method; the calls into
  the SDK and the logger are appended, in program order, to a trace.
\<close>

subsection \<open>JavaScript values\<close>

text \<open>
  A static field declared without initialiser reads \<open>undefined\<close>, and the code tests it
  by truthiness only. A value that may be \<open>undefined\<close> is an option; strings are lists
  of code units below 256; a number handed through unchanged (a timer's milliseconds, a
  timestamp) is an integer.
\<close>

datatype jsval = JNum int | JStr string | JBool bool | JNull

type_synonym props = "string \<rightharpoonup> jsval"

definition truthy :: "bool option \<Rightarrow> bool" where
  "truthy b = (b = Some True)"

definition toLowerChar :: "char \<Rightarrow> char" where
  "toLowerChar c =
     (let n = (of_char c :: nat)
      in if (65 \<le> n \<and> n \<le> 90) \<or> (192 \<le> n \<and> n \<le> 222 \<and> n \<noteq> 215)
         then char_of (n + 32) else c)"

definition toLowerCase :: "string \<Rightarrow> string" where
  "toLowerCase s = map toLowerChar s"

definition substr :: "nat \<Rightarrow> nat \<Rightarrow> string \<Rightarrow> string" where
  "substr start len s = take len (drop start s)"

subsection \<open>The deny-list and its regular expression\<close>

text \<open>
  \<open>IGNORE_ERRORS_REGEX\<close> is the alternation of the entries below, in this order. All
  entries but one are free of metacharacters; \<open>ora-[0-9]+\<close> is \<open>ora-\<close> followed by one or
  more decimal digits.
\<close>

datatype alt = Lit string | LitDigits string

definition IGNORE_ERRORS :: "alt list" where
  "IGNORE_ERRORS =
    [Lit ''aggregate function'',
     Lit ''already exists'',
     Lit ''authentication failed'',
     Lit ''cannot drop'',
     Lit ''cross-database references'',
     Lit ''does not exist'',
     Lit ''econnrefused'',
     Lit ''econnreset'',
     Lit ''enotfound'',
     Lit ''enotfound'',
     Lit ''er_access_denied_error'',
     Lit ''er_bad_db_error'',
     Lit ''er_bad_field_error'',
     Lit ''er_cannot_load_from_table_v2'',
     Lit ''er_dup_fieldname'',
     Lit ''er_no_referenced_row_2'',
     Lit ''er_no_such_table'',
     Lit ''er_not_supported_auth_mode'',
     Lit ''er_parse_error'',
     Lit ''etimedout'',
     Lit ''failed to connect'',
     Lit ''is ambiguous'',
     Lit ''key constraint'',
     Lit ''login failed'',
     Lit ''no such table'',
     LitDigits ''ora-'',
     Lit ''sqlite_cantopen'',
     Lit ''syntax error'',
     Lit ''unknown_code_please_report'',
     Lit ''violates'']"

definition isDigit :: "char \<Rightarrow> bool" where
  "isDigit c = (48 \<le> (of_char c :: nat) \<and> (of_char c :: nat) \<le> 57)"

text \<open>The number of code units one alternative consumes at the start of \<open>s\<close>, if it matches there.\<close>

fun match_alt :: "alt \<Rightarrow> string \<Rightarrow> nat option" where
  "match_alt (Lit p) s = (if take (length p) s = p then Some (length p) else None)"
| "match_alt (LitDigits p) s =
     (let ds = takeWhile isDigit (drop (length p) s)
      in if take (length p) s = p \<and> ds \<noteq> [] then Some (length p + length ds) else None)"

text \<open>An alternation tries its alternatives from left to right; the first that matches wins.\<close>

fun match_here :: "alt list \<Rightarrow> string \<Rightarrow> nat option" where
  "match_here [] s = None"
| "match_here (a # as) s =
     (case match_alt a s of Some n \<Rightarrow> Some n | None \<Rightarrow> match_here as s)"

text \<open>
  The matcher's loop: try at the current index, else advance by one code unit, up to and
  including the end of the string. \<open>s\<close> is the rest of the string from index \<open>i\<close>; the
  result is the end index of the leftmost match.
\<close>

fun scan :: "alt list \<Rightarrow> string \<Rightarrow> nat \<Rightarrow> nat option" where
  "scan as [] i = map_option (\<lambda>n. i + n) (match_here as [])"
| "scan as (c # cs) i =
     (case match_here as (c # cs) of
        Some n \<Rightarrow> Some (i + n)
      | None \<Rightarrow> scan as cs (Suc i))"

text \<open>
  \<open>RegExp.prototype.test\<close> on a regular expression with the flag \<open>g\<close>: the search starts
  at \<open>lastIndex\<close>; a match stores its end index there, a failure stores 0. The result is
  the answer together with the new \<open>lastIndex\<close>.
\<close>

definition regex_test :: "alt list \<Rightarrow> nat \<Rightarrow> string \<Rightarrow> bool \<times> nat" where
  "regex_test as lastIdx s =
     (if lastIdx > length s then (False, 0)
      else case scan as (drop lastIdx s) lastIdx of
             Some e \<Rightarrow> (True, e)
           | None \<Rightarrow> (False, 0))"

subsection \<open>What the module reads from outside\<close>

text \<open>
  \<open>process.env.PRODUCT\<close>, \<open>process.platform\<close>, \<open>process.arch\<close>, \<open>process.version\<close>, the
  constants \<open>VERSION\<close> and \<open>ENV\<close>, \<open>process.env.DSN_KEY\<close>, and the string that
  \<open>numericVersion(VERSION).toString()\<close> evaluates to.
\<close>

record env =
  PRODUCT :: "string option"
  DSN_KEY :: "string option"
  platform :: string
  arch :: string
  nodeversion :: string
  VERSION :: string
  ENV :: string
  extversionnum :: string

definition product :: "env \<Rightarrow> string" where
  "product e = (case PRODUCT e of None \<Rightarrow> ''ext'' | Some p \<Rightarrow> if p = [] then ''ext'' else p)"

definition prefixed :: "env \<Rightarrow> string \<Rightarrow> string" where
  "prefixed e key = product e @ '':'' @ key"

subsection \<open>Arguments and payloads\<close>

record extra_info =
  uniqId :: "string option"
  sessId :: "string option"

record ITelemetryArgs =
  enableTelemetry :: "bool option"
  extraInfo :: "extra_info option"

record js_error =
  message :: "string option"
  data :: "props option"

record ITimer =
  elapsed :: int

record init_options =
  maxBreadcrumbs :: nat
  init_enabled :: bool
  sampleRate :: nat
  release :: string
  environment :: string
  attachStacktrace :: bool
  dsn :: "string option"

record tags =
  tag_product :: string
  tag_os :: string
  tag_arch :: string
  tag_version :: string
  tag_extversionnum :: string
  tag_nodeversion :: string

record user =
  user_id :: "string option"
  deviceId :: "string option"
  sessionId :: "string option"

record sentry_event =
  event_id :: string
  event_message :: string
  extra :: "props option"
  timestamp :: int

text \<open>
  \<open>Sentry.Severity\<close> is declared by the SDK (package \<open>@sentry/types\<close>), not by this
  repository. It is a string enumeration: an object whose keys are the member names and
  whose values are the level strings, in the order below. A string enumeration has no
  reverse mapping, so the object has no key that is a level string.
\<close>

definition Severity_object :: "(string \<times> string) list" where
  "Severity_object =
    [(''Fatal'', ''fatal''),
     (''Error'', ''error''),
     (''Warning'', ''warning''),
     (''Log'', ''log''),
     (''Info'', ''info''),
     (''Debug'', ''debug''),
     (''Critical'', ''critical'')]"

text \<open>The members that the switch of \<open>registerMessage\<close> names.\<close>

datatype severity = Debug | Info | Warning | Error

fun member_name :: "severity \<Rightarrow> string" where
  "member_name Debug = ''Debug''"
| "member_name Info = ''Info''"
| "member_name Warning = ''Warning''"
| "member_name Error = ''Error''"

text \<open>
  \<open>Sentry.Severity.Debug\<close> and its like read a property of the object;
  \<open>Sentry.Severity[sev]\<close> reads the property whose key is the value of \<open>sev\<close>, and the key
  of an undefined \<open>sev\<close> is the string \<open>undefined\<close>. A missing property reads
  \<open>undefined\<close>, which is \<open>None\<close>.
\<close>

definition Severity_member :: "severity \<Rightarrow> string option" where
  "Severity_member m = map_of Severity_object (member_name m)"

definition Severity_index :: "string option \<Rightarrow> string option" where
  "Severity_index sev =
     map_of Severity_object (case sev of None \<Rightarrow> ''undefined'' | Some k \<Rightarrow> k)"

datatype log_arg = AStr string | ANum int | AErr js_error | AProps props

text \<open>The calls that leave the module, in the order they are made.\<close>

datatype effect =
    SentryInit init_options
  | SetClientEnabled bool
  | SetTags tags
  | SetUser user
  | SetExtras js_error props
  | CaptureException js_error
  | CaptureMessage string "string option"
  | CaptureEvent sentry_event
  | Log string string "log_arg list"

fun is_capture :: "effect \<Rightarrow> bool" where
  "is_capture (CaptureException _) = True"
| "is_capture (CaptureMessage _ _) = True"
| "is_capture (CaptureEvent _) = True"
| "is_capture _ = False"


subsection \<open>The state\<close>

text \<open>
  \<open>enabled\<close> and \<open>stored\<close> are the static fields \<open>Telemetry.enabled\<close> and
  \<open>Telemetry.extraInfo\<close>; \<open>lastIndex\<close> is \<open>IGNORE_ERRORS_REGEX.lastIndex\<close>.
\<close>

record world =
  enabled :: "bool option"
  stored :: "extra_info option"
  lastIndex :: nat
  trace :: "effect list"

definition emit :: "effect list \<Rightarrow> world \<Rightarrow> world" where
  "emit es w = w\<lparr>trace := trace w @ es\<rparr>"

definition captures :: "world \<Rightarrow> effect list" where
  "captures w = filter is_capture (trace w)"


subsection \<open>The class\<close>

definition beforeSend :: "world \<Rightarrow> sentry_event \<Rightarrow> sentry_event option" where
  "beforeSend w event = (if \<not> truthy (enabled w) then None else Some event)"

definition createClient :: "env \<Rightarrow> world \<Rightarrow> world" where
  "createClient e w =
     (let w1 = emit [SetClientEnabled True] w;
          w2 = emit [SetTags \<lparr>tag_product = product e, tag_os = platform e, tag_arch = arch e,
                              tag_version = VERSION e, tag_extversionnum = extversionnum e,
                              tag_nodeversion = nodeversion e\<rparr>] w1
      in case stored w2 of
           Some x \<Rightarrow> emit [SetUser \<lparr>user_id = uniqId x, deviceId = uniqId x, sessionId = sessId x\<rparr>] w2
         | None \<Rightarrow> w2)"

definition enable :: "env \<Rightarrow> world \<Rightarrow> world" where
  "enable e w =
     (if truthy (enabled w) then w
      else emit [Log ''debug'' ''Telemetry enabled!'' []]
             (createClient e (w\<lparr>enabled := Some True\<rparr>)))"

definition disable :: "world \<Rightarrow> world" where
  "disable w =
     (if \<not> truthy (enabled w) then w
      else emit [SetClientEnabled False, Log ''debug'' ''Telemetry disabled!'' []]
             (w\<lparr>enabled := Some False\<rparr>))"

definition updateOpts :: "env \<Rightarrow> ITelemetryArgs \<Rightarrow> world \<Rightarrow> world" where
  "updateOpts e opts w =
     (let w1 = w\<lparr>stored :=
                   (case extraInfo opts of
                      Some x \<Rightarrow> Some x
                    | None \<Rightarrow> (case stored w of
                                 Some y \<Rightarrow> Some y
                               | None \<Rightarrow> Some \<lparr>uniqId = None, sessId = None\<rparr>))\<rparr>
      in if truthy (enableTelemetry opts) then enable e w1 else disable w1)"

definition registerException :: "js_error option \<Rightarrow> props option \<Rightarrow> world \<Rightarrow> world" where
  "registerException err dat w =
     (if \<not> truthy (enabled w) then w
      else case err of
        None \<Rightarrow> w
      | Some error \<Rightarrow>
          (let errStr = toLowerCase (case message error of None \<Rightarrow> [] | Some m \<Rightarrow> m);
               (hit, li) = regex_test IGNORE_ERRORS (lastIndex w) errStr;
               w1 = w\<lparr>lastIndex := li\<rparr>
           in if hit then w1
              else
                (let properties =
                       (case data error of None \<Rightarrow> Map.empty | Some d \<Rightarrow> d)
                         ++ (case dat of None \<Rightarrow> Map.empty | Some d \<Rightarrow> d)
                 in emit [Log ''error'' (''Exception:%O'' @ [CHR 0x0A, CHR 0x09] @ ''Data: %j'')
                            [AErr error, AProps properties],
                          SetExtras error properties,
                          CaptureException error] w1)))"

definition map_severity :: "string \<Rightarrow> severity" where
  "map_severity sev =
     (if sev = ''debug'' then Debug
      else if sev = ''info'' then Info
      else if sev = ''warn'' then Warning
      else if sev = ''error'' \<or> sev = ''fatal'' \<or> sev = ''critical'' then Error
      else Info)"

definition registerMessage :: "env \<Rightarrow> string \<Rightarrow> string \<Rightarrow> string option \<Rightarrow> world \<Rightarrow> world" where
  "registerMessage e sev msg val w =
     (if \<not> truthy (enabled w) then w
      else
        (let v = (case val of None \<Rightarrow> ''Dismissed'' | Some x \<Rightarrow> x)
         in emit [Log (toLowerCase (substr 0 5 sev)) ''Message: %s, value: %s'' [AStr msg, AStr v],
                  CaptureMessage (prefixed e msg)
                    (Severity_index (Severity_member (map_severity sev)))] w))"

text \<open>\<open>now\<close> is what \<open>+new Date()\<close> reads when the event is built.\<close>

definition registerEvent :: "env \<Rightarrow> string \<Rightarrow> props option \<Rightarrow> int \<Rightarrow> world \<Rightarrow> world" where
  "registerEvent e name properties now w =
     (if \<not> truthy (enabled w) then w
      else emit [Log ''debug'' (''Event: %s'' @ [CHR 0x0A] @ ''%j'')
                   [AStr name, (case properties of None \<Rightarrow> AStr [] | Some p \<Rightarrow> AProps p)],
                 CaptureEvent \<lparr>event_id = prefixed e name, event_message = name,
                               extra = properties, timestamp = now\<rparr>] w)"

definition registerTime :: "env \<Rightarrow> string \<Rightarrow> ITimer \<Rightarrow> int \<Rightarrow> world \<Rightarrow> world" where
  "registerTime e timeKey timer now w =
     (if \<not> truthy (enabled w) then w
      else
        (let n = elapsed timer;
             w1 = emit [Log ''debug'' ''Time: %s %d ms'' [AStr timeKey, ANum n]] w
         in registerEvent e (prefixed e (''time:'' @ timeKey)) (Some [''value'' \<mapsto> JNum n]) now w1))"

subsection \<open>Loading the module\<close>

definition before_load :: world where
  "before_load = \<lparr>enabled = None, stored = None, lastIndex = 0, trace = []\<rparr>"

definition module_load :: "env \<Rightarrow> world" where
  "module_load e =
     updateOpts e \<lparr>enableTelemetry = Some False, extraInfo = None\<rparr>
       (emit [SentryInit \<lparr>maxBreadcrumbs = 5, init_enabled = False, sampleRate = 1,
                           release = product e @ ''@'' @ VERSION e, environment = ENV e,
                           attachStacktrace = True, dsn = DSN_KEY e\<rparr>] before_load)"

text \<open>The states the exported singleton can be in: what its methods make of the loaded module.\<close>

inductive reachable :: "env \<Rightarrow> world \<Rightarrow> bool" for e :: env where
  loaded: "reachable e (module_load e)"
| configured: "reachable e w \<Longrightarrow> reachable e (updateOpts e opts w)"
| enabled_by_call: "reachable e w \<Longrightarrow> reachable e (enable e w)"
| disabled_by_call: "reachable e w \<Longrightarrow> reachable e (disable w)"
| exception: "reachable e w \<Longrightarrow> reachable e (registerException err dat w)"
| message: "reachable e w \<Longrightarrow> reachable e (registerMessage e sev msg val w)"
| event: "reachable e w \<Longrightarrow> reachable e (registerEvent e name properties now w)"
| time: "reachable e w \<Longrightarrow> reachable e (registerTime e timeKey timer now w)"

subsection \<open>An environment for the closed examples\<close>

text \<open>
  Neither \<open>PRODUCT\<close> nor \<open>DSN_KEY\<close> is set, so the product is the fallback \<open>ext\<close>; the
  other strings stand for whatever the host reports.
\<close>

definition unset_env :: env where
  "unset_env = \<lparr>PRODUCT = None, DSN_KEY = None, platform = ''linux'', arch = ''x64'',
                 nodeversion = ''v12.0.0'', VERSION = ''1.0.0'', ENV = ''production'',
                 extversionnum = ''10000''\<rparr>"

section \<open>Properties\<close>

subsection \<open>How the methods touch the state\<close>

lemma truthy_simps [simp]:
  "truthy (Some True)" "\<not> truthy (Some False)" "\<not> truthy None"
  by (simp_all add: truthy_def)

lemma emit_fields [simp]:
  "trace (emit es w) = trace w @ es"
  "enabled (emit es w) = enabled w"
  "stored (emit es w) = stored w"
  "lastIndex (emit es w) = lastIndex w"
  by (simp_all add: emit_def)

lemma emit_Nil [simp]: "emit [] w = w"
  by (simp add: emit_def)

lemma createClient_fields [simp]:
  "enabled (createClient e w) = enabled w"
  "stored (createClient e w) = stored w"
  "lastIndex (createClient e w) = lastIndex w"
  by (simp_all add: createClient_def Let_def split: option.split)

lemma enable_fields [simp]:
  "enabled (enable e w) = Some True"
  "stored (enable e w) = stored w"
  "lastIndex (enable e w) = lastIndex w"
  by (auto simp: enable_def truthy_def)

lemma disable_fields [simp]:
  "\<not> truthy (enabled (disable w))"
  "stored (disable w) = stored w"
  "lastIndex (disable w) = lastIndex w"
  by (simp_all add: disable_def)

lemma stored_updateOpts:
  "stored (updateOpts e opts w) =
     (case extraInfo opts of
        Some x \<Rightarrow> Some x
      | None \<Rightarrow> (case stored w of Some y \<Rightarrow> Some y | None \<Rightarrow> Some \<lparr>uniqId = None, sessId = None\<rparr>))"
  by (simp add: updateOpts_def Let_def)

lemma stored_registerException [simp]: "stored (registerException err dat w) = stored w"
  by (simp add: registerException_def Let_def split: option.split prod.split)

lemma stored_registerMessage [simp]: "stored (registerMessage e sev msg val w) = stored w"
  by (simp add: registerMessage_def Let_def)

lemma stored_registerEvent [simp]: "stored (registerEvent e name properties now w) = stored w"
  by (simp add: registerEvent_def)

lemma stored_registerTime [simp]: "stored (registerTime e timeKey timer now w) = stored w"
  by (simp add: registerTime_def Let_def)

lemma stored_module_load: "stored (module_load e) = Some \<lparr>uniqId = None, sessId = None\<rparr>"
  by (simp add: module_load_def stored_updateOpts before_load_def)

lemma enabled_module_load: "enabled (module_load e) = None"
  by (simp add: module_load_def updateOpts_def disable_def before_load_def emit_def)

lemma reachable_stored_defined: "reachable e w \<Longrightarrow> \<exists>x. stored w = Some x"
  by (induction rule: reachable.induct)
     (auto simp: stored_module_load stored_updateOpts split: option.split)

lemma captures_emit: "captures (emit es w) = captures w @ filter is_capture es"
  by (simp add: captures_def)


lemma registerMessage_enabled:
  "truthy (enabled w) \<Longrightarrow>
   registerMessage e sev msg val w =
     emit [Log (toLowerCase (substr 0 5 sev)) ''Message: %s, value: %s''
             [AStr msg, AStr (case val of None \<Rightarrow> ''Dismissed'' | Some x \<Rightarrow> x)],
           CaptureMessage (prefixed e msg)
                    (Severity_index (Severity_member (map_severity sev)))] w"
  by (simp add: registerMessage_def Let_def)

lemma registerEvent_enabled:
  "truthy (enabled w) \<Longrightarrow>
   registerEvent e name properties now w =
     emit [Log ''debug'' (''Event: %s'' @ [CHR 0x0A] @ ''%j'')
             [AStr name, (case properties of None \<Rightarrow> AStr [] | Some p \<Rightarrow> AProps p)],
           CaptureEvent \<lparr>event_id = prefixed e name, event_message = name,
                         extra = properties, timestamp = now\<rparr>] w"
  by (simp add: registerEvent_def)

lemma captures_module_load: "captures (module_load e) = []"
  by (simp add: module_load_def updateOpts_def disable_def before_load_def emit_def captures_def)

lemma captures_enable: "captures (enable e w) = captures w"
  by (simp add: enable_def createClient_def Let_def captures_def emit_def split: option.split)

lemma lastIndex_module_load: "lastIndex (module_load e) = 0"
  by (simp add: module_load_def updateOpts_def before_load_def)


lemma loaded_then_enabled [simp]:
  "truthy (enabled (enable e (module_load e)))"
  "captures (enable e (module_load e)) = []"
  by (simp_all add: captures_enable captures_module_load)

subsection \<open>Reporting while disabled\<close>

text \<open>
  C1. Whenever the flag is not truthy (it is \<open>false\<close>, or was never assigned), each of
  the four report methods returns the state it was given: the trace, which holds every
  call into the SDK and every write to the logger, is the same, and so are the flag, the
  stored identifiers and the regular expression's index. The SDK's pre-send filter drops
  every event in such a state.
\<close>

theorem disabled_reports_nothing:
  assumes "\<not> truthy (enabled w)"
  shows "registerException err dat w = w
       \<and> registerMessage e sev msg val w = w
       \<and> registerEvent e name properties now w = w
       \<and> registerTime e timeKey timer now w = w
       \<and> beforeSend w ev = None"
  using assms
  by (simp add: registerException_def registerMessage_def registerEvent_def
        registerTime_def beforeSend_def)

theorem disabled_reports_nothing_witness:
  "\<not> truthy (enabled (disable (enable unset_env (module_load unset_env))))
   \<and> registerException (Some \<lparr>message = Some ''boom'', data = None\<rparr>) None
        (disable (enable unset_env (module_load unset_env)))
      = disable (enable unset_env (module_load unset_env))
   \<and> registerMessage unset_env ''info'' ''hello'' None
        (disable (enable unset_env (module_load unset_env)))
      = disable (enable unset_env (module_load unset_env))
   \<and> registerEvent unset_env ''save'' None 0
        (disable (enable unset_env (module_load unset_env)))
      = disable (enable unset_env (module_load unset_env))
   \<and> registerTime unset_env ''query'' \<lparr>elapsed = 42\<rparr> 0
        (disable (enable unset_env (module_load unset_env)))
      = disable (enable unset_env (module_load unset_env))"
  using disabled_reports_nothing
    [of "disable (enable unset_env (module_load unset_env))"
        "Some \<lparr>message = Some ''boom'', data = None\<rparr>" None unset_env "''info''" "''hello''" None
        "''save''" None 0 "''query''" "\<lparr>elapsed = 42\<rparr>"]
  by simp

subsection \<open>Switching on and off twice\<close>

text \<open>
  C7. A second \<open>enable()\<close> right after a first changes nothing at all, and so does a
  second \<open>disable()\<close>. Hence the pair of calls sets the tags at most once, switches the
  client on at most once, and, for \<open>disable()\<close>, switches it off at most once.
\<close>

theorem enable_disable_idempotent:
  "enable e (enable e w) = enable e w
   \<and> disable (disable w) = disable w
   \<and> length (filter (\<lambda>x. case x of SetTags _ \<Rightarrow> True | _ \<Rightarrow> False) (trace (enable e (enable e w))))
       \<le> Suc (length (filter (\<lambda>x. case x of SetTags _ \<Rightarrow> True | _ \<Rightarrow> False) (trace w)))
   \<and> length (filter (\<lambda>x. x = SetClientEnabled True) (trace (enable e (enable e w))))
       \<le> Suc (length (filter (\<lambda>x. x = SetClientEnabled True) (trace w)))
   \<and> length (filter (\<lambda>x. x = SetClientEnabled False) (trace (disable (disable w))))
       \<le> Suc (length (filter (\<lambda>x. x = SetClientEnabled False) (trace w)))"
proof -
  have e2: "enable e (enable e w) = enable e w"
    by (simp add: enable_def [of e "enable e w"])
  have d2: "disable (disable w) = disable w"
    by (simp add: disable_def [of "disable w"])
  show ?thesis
    unfolding e2 d2
    by (simp add: enable_def disable_def createClient_def Let_def split: option.split)
qed

subsection \<open>Messages\<close>

text \<open>
  The switch selects the member the table names, and the member's value is the level
  string; but the object has no property under a level string.
\<close>

lemma map_severity_table:
  "map_severity ''debug'' = Debug" "map_severity ''info'' = Info"
  "map_severity ''warn'' = Warning" "map_severity ''error'' = Error"
  "map_severity ''critical'' = Error" "map_severity ''fatal'' = Error"
  by (simp_all add: map_severity_def)

lemma Severity_member_value:
  "Severity_member Debug = Some ''debug''" "Severity_member Info = Some ''info''"
  "Severity_member Warning = Some ''warning''" "Severity_member Error = Some ''error''"
  by (simp_all add: Severity_member_def Severity_object_def)

lemma Severity_index_member: "Severity_index (Severity_member m) = None"
  by (cases m) (simp_all add: Severity_member_def Severity_index_def Severity_object_def)

text \<open>
  C3. With telemetry enabled right after loading, \<open>registerMessage\<close> is called with
  each of the six severities. The switch selects \<open>Debug\<close>, \<open>Info\<close>, \<open>Warning\<close>,
  \<open>Error\<close>, \<open>Error\<close>, \<open>Error\<close>, whose values are the level strings; the call hands
  \<open>Sentry.Severity[sev]\<close> to \<open>captureMessage\<close>, which is \<open>undefined\<close> every time, not
  the mapped level.
\<close>

theorem mapped_level_is_not_passed:
  "Severity_member (map_severity ''debug'') = Some ''debug''
   \<and> captures (registerMessage unset_env ''debug'' ''hello'' None
                 (enable unset_env (module_load unset_env)))
       = [CaptureMessage ''ext:hello'' None]
   \<and> Severity_member (map_severity ''info'') = Some ''info''
   \<and> captures (registerMessage unset_env ''info'' ''hello'' None
                 (enable unset_env (module_load unset_env)))
       = [CaptureMessage ''ext:hello'' None]
   \<and> Severity_member (map_severity ''warn'') = Some ''warning''
   \<and> captures (registerMessage unset_env ''warn'' ''hello'' None
                 (enable unset_env (module_load unset_env)))
       = [CaptureMessage ''ext:hello'' None]
   \<and> Severity_member (map_severity ''error'') = Some ''error''
   \<and> captures (registerMessage unset_env ''error'' ''hello'' None
                 (enable unset_env (module_load unset_env)))
       = [CaptureMessage ''ext:hello'' None]
   \<and> Severity_member (map_severity ''critical'') = Some ''error''
   \<and> captures (registerMessage unset_env ''critical'' ''hello'' None
                 (enable unset_env (module_load unset_env)))
       = [CaptureMessage ''ext:hello'' None]
   \<and> Severity_member (map_severity ''fatal'') = Some ''error''
   \<and> captures (registerMessage unset_env ''fatal'' ''hello'' None
                 (enable unset_env (module_load unset_env)))
       = [CaptureMessage ''ext:hello'' None]"
  by (simp add: map_severity_table Severity_member_value Severity_index_def
        Severity_object_def registerMessage_enabled captures_emit prefixed_def product_def
        unset_env_def)



subsection \<open>Events\<close>

text \<open>
  The event that \<open>registerEvent("save", {rows: 3})\<close> captures has the message \<open>save\<close>,
  which is not the prefixed name.
\<close>

theorem event_message_unprefixed_counterexample:
  "captures (registerEvent unset_env ''save'' (Some [''rows'' \<mapsto> JNum 3]) 0
              (enable unset_env (module_load unset_env)))
     = [CaptureEvent \<lparr>event_id = ''ext:save'', event_message = ''save'',
                       extra = Some [''rows'' \<mapsto> JNum 3], timestamp = 0\<rparr>]
   \<and> ''save'' \<noteq> prefixed unset_env ''save''"
  by (simp add: registerEvent_enabled captures_emit prefixed_def product_def unset_env_def)

text \<open>
  C5, amended. While enabled, \<open>registerEvent(name, properties)\<close> makes exactly one
  capture: an event whose identifier is the product-prefixed name, whose message is the
  name itself, without prefix, and whose extra data is the properties bag.
\<close>

theorem event_capture:
  assumes "truthy (enabled w)"
  shows "captures (registerEvent e name properties now w)
           = captures w @ [CaptureEvent \<lparr>event_id = prefixed e name, event_message = name,
                                         extra = properties, timestamp = now\<rparr>]"
  using assms
  by (simp add: registerEvent_enabled captures_emit)

theorem event_capture_witness:
  "truthy (enabled (enable unset_env (module_load unset_env)))
   \<and> captures (registerEvent unset_env ''save'' (Some [''rows'' \<mapsto> JNum 3]) 7
                 (enable unset_env (module_load unset_env)))
       = [CaptureEvent \<lparr>event_id = ''ext:save'', event_message = ''save'',
                         extra = Some [''rows'' \<mapsto> JNum 3], timestamp = 7\<rparr>]"
  using event_capture
    [of "enable unset_env (module_load unset_env)"
        unset_env "''save''" "Some [''rows'' \<mapsto> JNum 3]" 7]
  by (simp add: prefixed_def product_def unset_env_def)

subsection \<open>Timings\<close>

text \<open>
  \<open>registerTime("query", timer)\<close> with 42 elapsed does not capture what
  \<open>registerEvent("time:query", {value: 42})\<close> captures.
\<close>

theorem time_event_counterexample:
  "captures (registerTime unset_env ''query'' \<lparr>elapsed = 42\<rparr> 0
              (enable unset_env (module_load unset_env)))
   \<noteq> captures (registerEvent unset_env ''time:query'' (Some [''value'' \<mapsto> JNum 42]) 0
              (enable unset_env (module_load unset_env)))"
  by (simp add: registerTime_def Let_def registerEvent_enabled captures_emit
        prefixed_def product_def unset_env_def)

text \<open>
  C4, amended. While enabled, \<open>registerTime(timeKey, timer)\<close> with \<open>n\<close> elapsed captures
  the event that \<open>registerEvent\<close> captures for the already prefixed name
  \<open>prefixed("time:" + timeKey)\<close> and \<open>{value: n}\<close>: the message carries the product
  prefix once and the identifier carries it twice.
\<close>

theorem time_delegates_prefixed:
  assumes "truthy (enabled w)"
  shows "captures (registerTime e timeKey timer now w)
           = captures (registerEvent e (prefixed e (''time:'' @ timeKey))
                         (Some [''value'' \<mapsto> JNum (elapsed timer)]) now w)
       \<and> captures (registerTime e timeKey timer now w)
           = captures w @ [CaptureEvent \<lparr>event_id = prefixed e (prefixed e (''time:'' @ timeKey)),
                                         event_message = prefixed e (''time:'' @ timeKey),
                                         extra = Some [''value'' \<mapsto> JNum (elapsed timer)],
                                         timestamp = now\<rparr>]"
  using assms
  by (simp add: registerTime_def Let_def registerEvent_enabled captures_emit)

theorem time_delegates_prefixed_witness:
  "truthy (enabled (enable unset_env (module_load unset_env)))
   \<and> captures (registerTime unset_env ''query'' \<lparr>elapsed = 42\<rparr> 0
                 (enable unset_env (module_load unset_env)))
       = [CaptureEvent \<lparr>event_id = ''ext:ext:time:query'', event_message = ''ext:time:query'',
                         extra = Some [''value'' \<mapsto> JNum 42], timestamp = 0\<rparr>]"
proof -
  have on: "truthy (enabled (enable unset_env (module_load unset_env)))"
    by simp
  from time_delegates_prefixed [OF on, of unset_env "''query''" "\<lparr>elapsed = 42\<rparr>" 0, THEN conjunct2]
  have "captures (registerTime unset_env ''query'' \<lparr>elapsed = 42\<rparr> 0
                   (enable unset_env (module_load unset_env)))
          = captures (enable unset_env (module_load unset_env))
            @ [CaptureEvent \<lparr>event_id = prefixed unset_env (prefixed unset_env (''time:'' @ ''query'')),
                             event_message = prefixed unset_env (''time:'' @ ''query''),
                             extra = Some [''value'' \<mapsto> JNum 42], timestamp = 0\<rparr>]"
    by simp
  then show ?thesis
    using on by (simp add: prefixed_def product_def unset_env_def)
qed

subsection \<open>Configuring\<close>

text \<open>
  C6. In any state of the singleton, \<open>configure({enableTelemetry: false, extraInfo:
  {a, b}})\<close> followed by \<open>configure({enableTelemetry: true})\<close> leaves the identifiers
  \<open>a\<close> and \<open>b\<close> stored and the flag \<open>true\<close>. In general a configure call whose
  options carry no \<open>extraInfo\<close> leaves the stored value as it was, and one that carries
  a value stores that value.
\<close>

theorem configure_keeps_identifiers:
  assumes "reachable e w"
  shows "stored (updateOpts e \<lparr>enableTelemetry = Some True, extraInfo = None\<rparr>
                   (updateOpts e \<lparr>enableTelemetry = Some False,
                                   extraInfo = Some \<lparr>uniqId = Some ''a'', sessId = Some ''b''\<rparr>\<rparr> w))
           = Some \<lparr>uniqId = Some ''a'', sessId = Some ''b''\<rparr>
       \<and> enabled (updateOpts e \<lparr>enableTelemetry = Some True, extraInfo = None\<rparr>
                   (updateOpts e \<lparr>enableTelemetry = Some False,
                                   extraInfo = Some \<lparr>uniqId = Some ''a'', sessId = Some ''b''\<rparr>\<rparr> w))
           = Some True
       \<and> stored (updateOpts e \<lparr>enableTelemetry = t, extraInfo = None\<rparr> w) = stored w
       \<and> stored (updateOpts e \<lparr>enableTelemetry = t, extraInfo = Some x\<rparr> w) = Some x"
proof -
  from assms obtain y where "stored w = Some y"
    using reachable_stored_defined by blast
  then show ?thesis
    by (simp add: stored_updateOpts) (simp add: updateOpts_def)
qed

theorem configure_keeps_identifiers_witness:
  "reachable unset_env (module_load unset_env)
   \<and> stored (updateOpts unset_env \<lparr>enableTelemetry = Some True, extraInfo = None\<rparr>
                   (updateOpts unset_env \<lparr>enableTelemetry = Some False,
                                   extraInfo = Some \<lparr>uniqId = Some ''a'', sessId = Some ''b''\<rparr>\<rparr>
                      (module_load unset_env)))
           = Some \<lparr>uniqId = Some ''a'', sessId = Some ''b''\<rparr>
   \<and> enabled (updateOpts unset_env \<lparr>enableTelemetry = Some True, extraInfo = None\<rparr>
                   (updateOpts unset_env \<lparr>enableTelemetry = Some False,
                                   extraInfo = Some \<lparr>uniqId = Some ''a'', sessId = Some ''b''\<rparr>\<rparr>
                      (module_load unset_env)))
           = Some True"
  using configure_keeps_identifiers [OF reachable.loaded, of unset_env] reachable.loaded [of unset_env]
  by simp

subsection \<open>Right after loading\<close>

text \<open>
  The constructor calls \<open>disable()\<close>, which returns at once because the flag, never
  assigned, is not truthy. So the flag of the loaded module is not the boolean \<open>false\<close>.
\<close>

theorem loaded_flag_counterexample:
  "enabled (module_load unset_env) \<noteq> Some False"
  by (simp add: enabled_module_load)

text \<open>
  C9, amended. Right after the module is loaded the flag is \<open>undefined\<close>, hence not
  truthy; no capture has been made, and each of the four report methods called in that
  state returns it unchanged.
\<close>

theorem loaded_module_reports_nothing:
  "enabled (module_load e) = None
   \<and> \<not> truthy (enabled (module_load e))
   \<and> captures (module_load e) = []
   \<and> registerException err dat (module_load e) = module_load e
   \<and> registerMessage e sev msg val (module_load e) = module_load e
   \<and> registerEvent e name properties now (module_load e) = module_load e
   \<and> registerTime e timeKey timer now (module_load e) = module_load e"
  by (simp add: enabled_module_load captures_module_load registerException_def
        registerMessage_def registerEvent_def registerTime_def)

subsection \<open>The stored identifiers are always defined\<close>

lemma updateOpts_switch_on:
  assumes "\<not> truthy (enabled w)" and "truthy (enableTelemetry opts)"
    and "stored (updateOpts e opts w) = Some z"
  shows "trace (updateOpts e opts w)
           = trace w @ [SetClientEnabled True,
                        SetTags \<lparr>tag_product = product e, tag_os = platform e,
                                 tag_arch = arch e, tag_version = VERSION e,
                                 tag_extversionnum = extversionnum e,
                                 tag_nodeversion = nodeversion e\<rparr>,
                        SetUser \<lparr>user_id = uniqId z, deviceId = uniqId z, sessionId = sessId z\<rparr>,
                        Log ''debug'' ''Telemetry enabled!'' []]"
  using assms
  by (auto simp: updateOpts_def enable_def createClient_def Let_def emit_def
           split: option.splits)

text \<open>
  C10. Every configure call leaves \<open>extraInfo\<close> defined, and it is defined in every
  state of the singleton. So on every way from a flag that is not truthy to an enabled
  reporter, a direct \<open>enable()\<close> or a configure call that asks for telemetry, the guard
  in \<open>createClient\<close> passes: the client is switched on, the tags are set, and \<open>setUser\<close>
  is called with the stored identifiers, which are absent after a load without any.
\<close>

theorem stored_identity_always_sent:
  assumes "reachable e w"
  shows "(\<exists>y. stored (updateOpts e opts v) = Some y)
       \<and> stored (module_load e) = Some \<lparr>uniqId = None, sessId = None\<rparr>
       \<and> (\<exists>x. stored w = Some x
            \<and> (\<not> truthy (enabled w) \<longrightarrow>
                 enabled (enable e w) = Some True
                 \<and> trace (enable e w)
                   = trace w @ [SetClientEnabled True,
                                SetTags \<lparr>tag_product = product e, tag_os = platform e,
                                         tag_arch = arch e, tag_version = VERSION e,
                                         tag_extversionnum = extversionnum e,
                                         tag_nodeversion = nodeversion e\<rparr>,
                                SetUser \<lparr>user_id = uniqId x, deviceId = uniqId x,
                                         sessionId = sessId x\<rparr>,
                                Log ''debug'' ''Telemetry enabled!'' []]))
       \<and> (\<exists>z. stored (updateOpts e opts w) = Some z
            \<and> (\<not> truthy (enabled w) \<and> truthy (enableTelemetry opts) \<longrightarrow>
                 enabled (updateOpts e opts w) = Some True
                 \<and> trace (updateOpts e opts w)
                   = trace w @ [SetClientEnabled True,
                                SetTags \<lparr>tag_product = product e, tag_os = platform e,
                                         tag_arch = arch e, tag_version = VERSION e,
                                         tag_extversionnum = extversionnum e,
                                         tag_nodeversion = nodeversion e\<rparr>,
                                SetUser \<lparr>user_id = uniqId z, deviceId = uniqId z,
                                         sessionId = sessId z\<rparr>,
                                Log ''debug'' ''Telemetry enabled!'' []]))"
proof -
  have any: "\<exists>y. stored (updateOpts e opts v) = Some y" for v
    by (simp add: stored_updateOpts split: option.split)
  from assms obtain x where x: "stored w = Some x"
    using reachable_stored_defined by blast
  have direct: "\<not> truthy (enabled w) \<longrightarrow>
      enabled (enable e w) = Some True
      \<and> trace (enable e w)
          = trace w @ [SetClientEnabled True,
                       SetTags \<lparr>tag_product = product e, tag_os = platform e,
                                tag_arch = arch e, tag_version = VERSION e,
                                tag_extversionnum = extversionnum e,
                                tag_nodeversion = nodeversion e\<rparr>,
                       SetUser \<lparr>user_id = uniqId x, deviceId = uniqId x, sessionId = sessId x\<rparr>,
                       Log ''debug'' ''Telemetry enabled!'' []]"
    using x by (simp add: enable_def createClient_def Let_def emit_def)
  from any obtain z where z: "stored (updateOpts e opts w) = Some z"
    by blast
  have flag: "truthy (enableTelemetry opts) \<Longrightarrow> enabled (updateOpts e opts w) = Some True"
    by (simp add: updateOpts_def Let_def)
  show ?thesis
    using any x direct z flag updateOpts_switch_on [of w opts e z]
    by (simp add: stored_module_load)
qed

theorem stored_identity_always_sent_witness:
  "reachable unset_env (module_load unset_env)
   \<and> \<not> truthy (enabled (module_load unset_env))
   \<and> stored (module_load unset_env) = Some \<lparr>uniqId = None, sessId = None\<rparr>
   \<and> trace (enable unset_env (module_load unset_env))
       = trace (module_load unset_env)
         @ [SetClientEnabled True,
            SetTags \<lparr>tag_product = ''ext'', tag_os = ''linux'', tag_arch = ''x64'',
                     tag_version = ''1.0.0'', tag_extversionnum = ''10000'',
                     tag_nodeversion = ''v12.0.0''\<rparr>,
            SetUser \<lparr>user_id = None, deviceId = None, sessionId = None\<rparr>,
            Log ''debug'' ''Telemetry enabled!'' []]
   \<and> truthy (enableTelemetry \<lparr>enableTelemetry = Some True,
                               extraInfo = Some \<lparr>uniqId = Some ''a'', sessId = Some ''b''\<rparr>\<rparr>)
   \<and> trace (updateOpts unset_env
               \<lparr>enableTelemetry = Some True,
                  extraInfo = Some \<lparr>uniqId = Some ''a'', sessId = Some ''b''\<rparr>\<rparr>
               (module_load unset_env))
       = trace (module_load unset_env)
         @ [SetClientEnabled True,
            SetTags \<lparr>tag_product = ''ext'', tag_os = ''linux'', tag_arch = ''x64'',
                     tag_version = ''1.0.0'', tag_extversionnum = ''10000'',
                     tag_nodeversion = ''v12.0.0''\<rparr>,
            SetUser \<lparr>user_id = Some ''a'', deviceId = Some ''a'', sessionId = Some ''b''\<rparr>,
            Log ''debug'' ''Telemetry enabled!'' []]"
  using stored_identity_always_sent
      [OF reachable.loaded, of unset_env
          "\<lparr>enableTelemetry = Some True,
             extraInfo = Some \<lparr>uniqId = Some ''a'', sessId = Some ''b''\<rparr>\<rparr>"]
    reachable.loaded [of unset_env]
  by (simp add: enabled_module_load stored_module_load stored_updateOpts)
     (simp add: product_def unset_env_def)

subsection \<open>The deny-list\<close>

text \<open>
  A search that starts at index 0 finds a match wherever one exists, so with the index
  at 0 the filter drops an error whose message holds an entry of the list.
\<close>

lemma match_here_member:
  "a \<in> set as \<Longrightarrow> match_alt a s = Some n \<Longrightarrow> \<exists>m. match_here as s = Some m"
  by (induction as) (auto split: option.split)

lemma scan_finds:
  "k \<le> length s \<Longrightarrow> match_here as (drop k s) = Some m \<Longrightarrow> \<exists>e. scan as s i = Some e"
proof (induction s arbitrary: k i)
  case Nil
  then show ?case by simp
next
  case (Cons c cs)
  show ?case
  proof (cases k)
    case 0
    with Cons.prems show ?thesis by simp
  next
    case (Suc j)
    with Cons.prems have "j \<le> length cs" and "match_here as (drop j cs) = Some m"
      by simp_all
    then obtain e where "scan as cs (Suc i) = Some e"
      using Cons.IH by blast
    then show ?thesis
      by (simp split: option.split)
  qed
qed

lemma regex_test_fresh:
  assumes "a \<in> set as" and "match_alt a (drop k s) = Some n" and "k \<le> length s"
  shows "\<exists>e. regex_test as 0 s = (True, e)"
proof -
  obtain m where "match_here as (drop k s) = Some m"
    using match_here_member [OF assms(1) assms(2)] by blast
  then obtain e where "scan as s 0 = Some e"
    using scan_finds [OF assms(3)] by blast
  then show ?thesis
    by (simp add: regex_test_def)
qed

lemma toLowerCase_append: "toLowerCase (xs @ ys) = toLowerCase xs @ toLowerCase ys"
  by (simp add: toLowerCase_def)

lemma length_toLowerCase: "length (toLowerCase xs) = length xs"
  by (simp add: toLowerCase_def)

lemma toLowerChar_digit: "isDigit d \<Longrightarrow> toLowerChar d = d"
  by (simp add: isDigit_def toLowerChar_def Let_def)

lemma fresh_regex_drops_listed_error:
  assumes "truthy (enabled w)" and "lastIndex w = 0"
    and "Lit p \<in> set IGNORE_ERRORS"
    and "message error = Some (pre @ mid @ post)" and "toLowerCase mid = p"
  shows "trace (registerException (Some error) dat w) = trace w"
proof -
  let ?s = "toLowerCase (pre @ mid @ post)"
  have "drop (length pre) ?s = p @ toLowerCase post"
    using assms(5) by (simp add: toLowerCase_append length_toLowerCase)
  then have "match_alt (Lit p) (drop (length pre) ?s) = Some (length p)"
    by simp
  moreover have "length pre \<le> length ?s"
    by (simp add: length_toLowerCase)
  ultimately obtain e where "regex_test IGNORE_ERRORS 0 ?s = (True, e)"
    using regex_test_fresh [OF assms(3)] by blast
  then show ?thesis
    using assms(1,2,4) by (simp add: registerException_def)
qed

lemma fresh_regex_drops_ora_error:
  assumes "truthy (enabled w)" and "lastIndex w = 0"
    and "message error = Some (pre @ mid @ d # post)"
    and "toLowerCase mid = ''ora-''" and "isDigit d"
  shows "trace (registerException (Some error) dat w) = trace w"
proof -
  let ?s = "toLowerCase (pre @ mid @ d # post)"
  have "drop (length pre) ?s = ''ora-'' @ d # toLowerCase post"
    using assms(4) toLowerChar_digit [OF assms(5)]
    by (simp add: toLowerCase_append length_toLowerCase) (simp add: toLowerCase_def)
  then have "\<exists>n. match_alt (LitDigits ''ora-'') (drop (length pre) ?s) = Some n"
    using assms(5) by simp
  moreover have "length pre \<le> length ?s"
    by (simp add: length_toLowerCase)
  moreover have "LitDigits ''ora-'' \<in> set IGNORE_ERRORS"
    by (simp add: IGNORE_ERRORS_def)
  ultimately obtain e where "regex_test IGNORE_ERRORS 0 ?s = (True, e)"
    using regex_test_fresh by blast
  then show ?thesis
    using assms(1,2,3) by (simp add: registerException_def)
qed

text \<open>
  The index is not always 0: a successful \<open>test\<close> leaves it at the end of its match, and
  the next \<open>test\<close> starts there, whatever string it is given.
\<close>

lemma syntax_error_first: "regex_test IGNORE_ERRORS 0 (toLowerCase ''syntax error'') = (True, 12)"
  by code_simp

lemma syntax_error_second: "regex_test IGNORE_ERRORS 12 (toLowerCase ''syntax error'') = (False, 0)"
  by code_simp

text \<open>
  C2. With telemetry enabled right after loading, the error with message
  \<open>syntax error\<close> is reported twice. The first call is dropped and leaves the index at
  12; the second call searches from index 12, finds nothing, and the error, whose
  message is an entry of the list, is passed to \<open>captureException\<close>.
\<close>

theorem repeated_listed_error_is_captured:
  "captures (registerException (Some \<lparr>message = Some ''syntax error'', data = None\<rparr>) None
              (enable unset_env (module_load unset_env))) = []
   \<and> lastIndex (registerException (Some \<lparr>message = Some ''syntax error'', data = None\<rparr>) None
                  (enable unset_env (module_load unset_env))) = 12
   \<and> captures (registerException (Some \<lparr>message = Some ''syntax error'', data = None\<rparr>) None
                (registerException (Some \<lparr>message = Some ''syntax error'', data = None\<rparr>) None
                   (enable unset_env (module_load unset_env))))
       = [CaptureException \<lparr>message = Some ''syntax error'', data = None\<rparr>]"
proof -
  let ?err = "\<lparr>message = Some ''syntax error'', data = None\<rparr>"
  let ?w = "enable unset_env (module_load unset_env)"
  have first: "registerException (Some ?err) None ?w = ?w\<lparr>lastIndex := 12\<rparr>"
    by (simp add: registerException_def lastIndex_module_load syntax_error_first)
  have second: "registerException (Some ?err) None (?w\<lparr>lastIndex := 12\<rparr>)
                  = emit [Log ''error'' (''Exception:%O'' @ [CHR 0x0A, CHR 0x09] @ ''Data: %j'')
                            [AErr ?err, AProps Map.empty],
                          SetExtras ?err Map.empty, CaptureException ?err]
                      (?w\<lparr>lastIndex := 0\<rparr>)"
    by (simp add: registerException_def Let_def syntax_error_second)
  have c: "captures (?w\<lparr>lastIndex := 12\<rparr>) = []" "captures (?w\<lparr>lastIndex := 0\<rparr>) = []"
    using captures_enable [of unset_env "module_load unset_env"] captures_module_load [of unset_env]
    by (simp_all add: captures_def)
  show ?thesis
    unfolding first second by (simp add: c captures_emit)
qed

end
